theory Spec2Isabelle
  imports Main "HOL-Library.Word"
begin

section \<open>The wall-clock event source of profile-eventsource-timerthread.cc\<close>

text \<open>
  The class \<^verbatim>\<open>ThreadProfileEventSource\<close> owns a background timer thread that
  increments a shared tick counter and sends \<^verbatim>\<open>SIGPROF\<close> to every registered
  thread. The model is sequential: every member function and every iteration of
  the timer thread's loop is one atomic step on the state below.
\<close>

subsection \<open>Data\<close>

text \<open>
  \<^verbatim>\<open>pthread_t\<close> is an opaque identifier; the code only tests it against zero
  (\<^verbatim>\<open>if (thread_)\<close>) and hands it to the operating system.
  \<^verbatim>\<open>timer_count_t\<close> is \<^verbatim>\<open>Atomic32\<close>, a signed 32-bit integer: a 32-bit word
  whose comparisons are the signed ones.
\<close>

type_synonym pthread_t = nat
type_synonym timer_count_t = "32 word"
type_synonym uint32_t = "32 word"

text \<open>
  The instance fields of the class (lines 40 to 51) together with its two
  statics: \<^verbatim>\<open>current_tick_\<close> (line 58) and the thread-local
  \<^verbatim>\<open>thread_last_tick\<close> (line 59), which has one cell per thread. A constant
  cannot end in an underscore, so \<^verbatim>\<open>thread_\<close> is \<open>thread\<close> here, and likewise
  for the other members.
\<close>

record event_source =
  thread :: pthread_t
  thread_stop :: bool
  events_enabled :: bool
  frequency :: int
  threads :: "pthread_t list"
  current_tick :: timer_count_t
  thread_last_tick :: "pthread_t \<Rightarrow> timer_count_t"

text \<open>\<^verbatim>\<open>RAW_LOG(FATAL, ...)\<close> aborts the process; the message is kept.\<close>

datatype fatal = FATAL string

text \<open>A warning written by \<^verbatim>\<open>RAW_LOG(WARNING, format, args)\<close>.\<close>

datatype warning = WARNING string "int list"

text \<open>
  What the operating system answers to the calls made by
  \<^verbatim>\<open>StartTimerThread\<close> and \<^verbatim>\<open>StopTimerThread\<close>: the return codes, and the
  handle \<^verbatim>\<open>pthread_create\<close> stores.
\<close>

record os =
  pthread_attr_init_rc :: int
  sched_getscheduler_rc :: int
  sched_get_priority_max_rc :: int
  pthread_attr_setschedparam_rc :: int
  pthread_create_rc :: int
  pthread_create_thread :: pthread_t
  pthread_join_rc :: int

text \<open>
  Every call succeeds, and the handle of the new thread is not zero (a
  \<^verbatim>\<open>pthread_t\<close> of an existing thread never is on the platforms the code
  targets: the code itself uses zero for "no thread").
\<close>

definition os_ok :: "os \<Rightarrow> bool" where
  "os_ok k \<longleftrightarrow>
     pthread_attr_init_rc k = 0 \<and>
     sched_getscheduler_rc k \<noteq> - 1 \<and>
     sched_get_priority_max_rc k \<noteq> - 1 \<and>
     pthread_attr_setschedparam_rc k = 0 \<and>
     pthread_create_rc k = 0 \<and>
     pthread_create_thread k \<noteq> 0 \<and>
     pthread_join_rc k = 0"

definition ESRCH :: int where
  "ESRCH = 3"

definition EINVAL :: int where
  "EINVAL = 22"

subsection \<open>Construction and the cheap operations\<close>

text \<open>
  The constructor (lines 12 to 15), run for the first instance in a fresh
  process: the registry starts empty, and the two statics, which the
  constructor does not write, hold their initialisers of lines 58 and 59.
\<close>

definition ThreadProfileEventSource :: "int \<Rightarrow> event_source" where
  "ThreadProfileEventSource freq =
     \<lparr> thread = 0, thread_stop = False, events_enabled = False,
       frequency = freq, threads = [],
       current_tick = 0, thread_last_tick = (\<lambda>t. 0) \<rparr>"

definition EnableEvents :: "event_source \<Rightarrow> event_source" where
  "EnableEvents s = s\<lparr>events_enabled := True\<rparr>"

text \<open>Line 24 assigns \<^verbatim>\<open>true\<close>, as line 21 does.\<close>

definition DisableEvents :: "event_source \<Rightarrow> event_source" where
  "DisableEvents s = s\<lparr>events_enabled := True\<rparr>"

text \<open>
  \<^verbatim>\<open>RegisterThread\<close> (lines 61 to 64): \<^verbatim>\<open>self\<close> is \<^verbatim>\<open>pthread_self()\<close>, the
  calling thread; the argument is not used.
\<close>

definition RegisterThread :: "pthread_t \<Rightarrow> int \<Rightarrow> event_source \<Rightarrow> event_source" where
  "RegisterThread self callback_count s = s\<lparr>threads := threads s @ [self]\<rparr>"

subsection \<open>Starting and stopping the timer thread\<close>

definition StartTimerThread :: "os \<Rightarrow> event_source \<Rightarrow> fatal + event_source" where
  "StartTimerThread k s =
     (if thread s \<noteq> 0 then Inl (FATAL ''Timer already running'')
      else if pthread_attr_init_rc k \<noteq> 0 then Inl (FATAL ''Cannot initialize pthread_attr_t'')
      else if sched_getscheduler_rc k = - 1 then Inl (FATAL ''Cannot get current scheduler'')
      else if sched_get_priority_max_rc k = - 1 then Inl (FATAL ''Cannot get max priority'')
      else if pthread_attr_setschedparam_rc k \<noteq> 0
        then Inl (FATAL ''Cannot set timer thread priority'')
      else if pthread_create_rc k \<noteq> 0 then Inl (FATAL ''Cannot create timer thread'')
      else Inr (s\<lparr>thread_stop := False, thread := pthread_create_thread k\<rparr>))"

text \<open>
  \<^verbatim>\<open>pthread_join\<close> returns once the timer thread has left its loop, so after a
  successful join no further iteration runs.
\<close>

definition StopTimerThread :: "os \<Rightarrow> event_source \<Rightarrow> fatal + event_source" where
  "StopTimerThread k s =
     (if thread s \<noteq> 0 then
        (if pthread_join_rc k \<noteq> 0 then Inl (FATAL ''Cannot stop timer thread %d'')
         else Inr (s\<lparr>thread_stop := True, thread := 0\<rparr>))
      else Inr s)"

definition Reset :: "os \<Rightarrow> event_source \<Rightarrow> fatal + event_source" where
  "Reset k s = StopTimerThread k s"

definition RegisteredCallback :: "os \<Rightarrow> int \<Rightarrow> event_source \<Rightarrow> fatal + event_source" where
  "RegisteredCallback k new_callback_count s =
     (if new_callback_count = 1 then StartTimerThread k s else Inr s)"

definition UnregisteredCallback :: "os \<Rightarrow> int \<Rightarrow> event_source \<Rightarrow> fatal + event_source" where
  "UnregisteredCallback k new_callback_count s =
     (if new_callback_count = 0 then StopTimerThread k s else Inr s)"

subsection \<open>The timer thread\<close>

text \<open>
  The \<^verbatim>\<open>for\<close> loop of lines 121 to 145 over the registry. \<^verbatim>\<open>kill t\<close> is what
  \<^verbatim>\<open>pthread_kill(t, SIGPROF)\<close> returns during the pass. The result is the
  registry after the pass, the delivery attempts in order (thread and return
  code) and the warnings logged.
\<close>

fun deliver :: "(pthread_t \<Rightarrow> int) \<Rightarrow> pthread_t list \<Rightarrow>
    pthread_t list \<times> (pthread_t \<times> int) list \<times> warning list" where
  "deliver kill [] = ([], [], [])"
| "deliver kill (t # ts) =
     (let err = kill t;
          (ts', att, log) = deliver kill ts
      in if err \<noteq> 0 then
           (if err = ESRCH then (ts', (t, err) # att, log)
            else if err = EINVAL
              then (t # ts', (t, err) # att, WARNING ''Error sending signal: EINVAL'' [] # log)
            else (t # ts', (t, err) # att,
                  WARNING ''Unknown error sending signal: %d'' [err] # log))
         else (t # ts', (t, err) # att, log))"

text \<open>One iteration of the \<^verbatim>\<open>while\<close> loop (lines 112 to 149), the sleep left out.\<close>

definition TimerThreadMain_iteration :: "(pthread_t \<Rightarrow> int) \<Rightarrow> event_source \<Rightarrow>
    event_source \<times> (pthread_t \<times> int) list \<times> warning list" where
  "TimerThreadMain_iteration kill s =
     (let s1 = s\<lparr>current_tick := current_tick s + 1\<rparr>
      in if events_enabled s1 then
           (let (ts', att, log) = deliver kill (threads s1)
            in (s1\<lparr>threads := ts'\<rparr>, att, log))
         else (s1, [], []))"

text \<open>
  The \<^verbatim>\<open>while\<close> loop of \<^verbatim>\<open>TimerThreadMain\<close> (lines 111 to 150). It runs until
  another thread sets \<^verbatim>\<open>thread_stop_\<close>; \<open>n\<close> bounds the iterations the
  scheduler lets it run before the next step of another thread. The loop is
  reached only with a frequency that is not zero: line 107 divides by
  \<^verbatim>\<open>frequency_\<close> and traps otherwise, before the first tick. The check of the
  signal at line 109 always passes.
\<close>

fun TimerThreadMain :: "nat \<Rightarrow> (pthread_t \<Rightarrow> int) \<Rightarrow> event_source \<Rightarrow>
    event_source \<times> (pthread_t \<times> int) list \<times> warning list" where
  "TimerThreadMain 0 kill s = (s, [], [])"
| "TimerThreadMain (Suc n) kill s =
     (if thread_stop s then (s, [], [])
      else (let (s1, att, log) = TimerThreadMain_iteration kill s;
                (s2, att', log') = TimerThreadMain n kill s1
            in (s2, att @ att', log @ log')))"

subsection \<open>Elapsed ticks\<close>

text \<open>
  \<^verbatim>\<open>GetTicksSinceLastCall\<close> (lines 172 to 193), run by thread \<^verbatim>\<open>self\<close>. The
  comparison is the signed one of \<^verbatim>\<open>Atomic32\<close>; the subtraction is taken
  modulo \<open>2 ^ 32\<close>, which is what the conversion of the difference to
  \<^verbatim>\<open>uint32_t\<close> yields on a two's complement machine.
\<close>

definition GetTicksSinceLastCall :: "pthread_t \<Rightarrow> event_source \<Rightarrow> uint32_t \<times> event_source" where
  "GetTicksSinceLastCall self s =
     (let system_time = current_tick s;
          thread_time = thread_last_tick s self;
          ticks = (if thread_time \<noteq> 0
                   then (if thread_time <s system_time
                         then system_time - thread_time
                         else thread_time - system_time)
                   else 1)
      in (ticks, s\<lparr>thread_last_tick := (thread_last_tick s)(self := system_time)\<rparr>))"

subsection \<open>Sequences of calls\<close>

text \<open>
  A call of \<^verbatim>\<open>RegisteredCallback\<close> or \<^verbatim>\<open>UnregisteredCallback\<close> with its
  argument, and a sequence of them run in order, each with what the operating
  system answers during it; a fatal error ends the run.
\<close>

datatype callback_event = RegisteredCallback_call int | UnregisteredCallback_call int

fun apply_callback :: "os \<Rightarrow> callback_event \<Rightarrow> event_source \<Rightarrow> fatal + event_source" where
  "apply_callback k (RegisteredCallback_call n) s = RegisteredCallback k n s"
| "apply_callback k (UnregisteredCallback_call n) s = UnregisteredCallback k n s"

fun callback_calls :: "(os \<times> callback_event) list \<Rightarrow> event_source \<Rightarrow> fatal + event_source" where
  "callback_calls [] s = Inr s"
| "callback_calls ((k, e) # cs) s =
     (case apply_callback k e s of Inl err \<Rightarrow> Inl err | Inr s' \<Rightarrow> callback_calls cs s')"

text \<open>
  Every call reports the new total: one more than the count before it for a
  registration, one less for a deregistration. \<open>c\<close> is the count before the
  first call.
\<close>

fun reports_new_count :: "int \<Rightarrow> callback_event list \<Rightarrow> bool" where
  "reports_new_count c [] = True"
| "reports_new_count c (RegisteredCallback_call n # cs) = (n = c + 1 \<and> reports_new_count n cs)"
| "reports_new_count c (UnregisteredCallback_call n # cs) = (n = c - 1 \<and> reports_new_count n cs)"

text \<open>The count after the sequence: the last one reported.\<close>

fun count_after :: "int \<Rightarrow> callback_event list \<Rightarrow> int" where
  "count_after c [] = c"
| "count_after c (RegisteredCallback_call n # cs) = count_after n cs"
| "count_after c (UnregisteredCallback_call n # cs) = count_after n cs"

text \<open>
  The timer is running: the event source holds the handle of a timer thread
  and has not asked its loop to stop.
\<close>

definition timer_running :: "event_source \<Rightarrow> bool" where
  "timer_running s \<longleftrightarrow> thread s \<noteq> 0 \<and> \<not> thread_stop s"

text \<open>
  What the specification asks of the two calls, to compare the code with. A
  started timer: the handle is the one of the thread just created and the stop
  flag is clear. A stopped and joined timer: the stop flag is set and the
  handle is cleared. The timer is started on the call that reports 1 after
  count 0, stopped on the call that reports 0 after count 1, and every other
  call leaves the state as it is.
\<close>

definition spec_started :: "os \<Rightarrow> event_source \<Rightarrow> event_source" where
  "spec_started k s = s\<lparr>thread_stop := False, thread := pthread_create_thread k\<rparr>"

definition spec_stopped :: "event_source \<Rightarrow> event_source" where
  "spec_stopped s = s\<lparr>thread_stop := True, thread := 0\<rparr>"

fun spec_timer_lifecycle :: "int \<Rightarrow> (os \<times> callback_event) list \<Rightarrow> event_source \<Rightarrow>
    event_source" where
  "spec_timer_lifecycle c [] s = s"
| "spec_timer_lifecycle c ((k, RegisteredCallback_call n) # cs) s =
     spec_timer_lifecycle n cs (if c = 0 \<and> n = 1 then spec_started k s else s)"
| "spec_timer_lifecycle c ((k, UnregisteredCallback_call n) # cs) s =
     spec_timer_lifecycle n cs (if c = 1 \<and> n = 0 then spec_stopped s else s)"

text \<open>The handle and the stop flag both agree with the count \<open>c\<close>.\<close>

definition lifecycle_inv :: "int \<Rightarrow> event_source \<Rightarrow> bool" where
  "lifecycle_inv c s \<longleftrightarrow> (thread s \<noteq> 0 \<longleftrightarrow> 1 \<le> c) \<and> (timer_running s \<longleftrightarrow> 1 \<le> c)"

text \<open>A sequence of \<^verbatim>\<open>RegisterThread\<close> calls, each with its calling thread and argument.\<close>

fun RegisterThread_calls :: "(pthread_t \<times> int) list \<Rightarrow> event_source \<Rightarrow> event_source" where
  "RegisterThread_calls [] s = s"
| "RegisterThread_calls ((self, n) # cs) s = RegisterThread_calls cs (RegisterThread self n s)"

subsection \<open>Concrete environments\<close>

text \<open>An operating system where every call succeeds and the new thread is 42.\<close>

definition os_success :: os where
  "os_success = \<lparr> pthread_attr_init_rc = 0, sched_getscheduler_rc = 0,
     sched_get_priority_max_rc = 0, pthread_attr_setschedparam_rc = 0,
     pthread_create_rc = 0, pthread_create_thread = 42, pthread_join_rc = 0 \<rparr>"

text \<open>Every signal is delivered.\<close>

definition kill_ok :: "pthread_t \<Rightarrow> int" where
  "kill_ok t = 0"

section \<open>Properties\<close>

subsection \<open>Suppressing events\<close>

text \<open>
  C1: \<^verbatim>\<open>DisableEvents\<close> should stop delivery while the timer keeps running.
  The code does not: thread 7 registers, the timer is started (handle 42),
  events are enabled and then disabled; in the next two iterations of the loop
  the counter advances to 2 and \<^verbatim>\<open>SIGPROF\<close> is still sent to thread 7 both
  times, because the flag is still set.
\<close>

theorem DisableEvents_still_delivers:
  "events_enabled (DisableEvents (EnableEvents
      (RegisterThread 7 0 ((ThreadProfileEventSource 100)\<lparr>thread := 42\<rparr>)))) \<and>
   current_tick (fst (TimerThreadMain 2 kill_ok (DisableEvents (EnableEvents
      (RegisterThread 7 0 ((ThreadProfileEventSource 100)\<lparr>thread := 42\<rparr>)))))) = 2 \<and>
   fst (snd (TimerThreadMain 2 kill_ok (DisableEvents (EnableEvents
      (RegisterThread 7 0 ((ThreadProfileEventSource 100)\<lparr>thread := 42\<rparr>)))))) = [(7, 0), (7, 0)]"
  by (simp add: DisableEvents_def EnableEvents_def RegisterThread_def ThreadProfileEventSource_def
      TimerThreadMain_iteration_def kill_ok_def Let_def numeral_2_eq_2)

subsection \<open>Elapsed ticks\<close>

text \<open>
  C2: when the counter advances by \<open>k\<close> between two calls of a thread whose
  last-observed tick is not the sentinel, the second call should return \<open>k\<close>
  modulo \<open>2 ^ 32\<close>. The code does not once the counter passes the largest
  signed value. Thread 7 calls while the counter is \<open>2 ^ 31 - 1\<close>, the timer
  thread increments it once (\<open>k = 1\<close>), and the second call returns
  \<open>2 ^ 32 - 1\<close>: the counter now reads as the least signed value, the signed
  comparison of line 178 fails, and the difference is taken the other way
  round (in the source that subtraction of two \<^verbatim>\<open>int\<close> values overflows; it
  is taken modulo \<open>2 ^ 32\<close> here). The same happens where no subtraction
  overflows: the counter goes from 5 to 3, having advanced by
  \<open>k = 2 ^ 32 - 2\<close>, and the second call returns 2.
\<close>

theorem GetTicksSinceLastCall_wraparound:
  "thread_last_tick (fst (TimerThreadMain_iteration kill_ok
      (snd (GetTicksSinceLastCall 7
        ((ThreadProfileEventSource 100)\<lparr>current_tick := 2147483647\<rparr>))))) 7 \<noteq> 0 \<and>
   fst (GetTicksSinceLastCall 7 (fst (TimerThreadMain_iteration kill_ok
      (snd (GetTicksSinceLastCall 7
        ((ThreadProfileEventSource 100)\<lparr>current_tick := 2147483647\<rparr>)))))) = 4294967295 \<and>
   fst (GetTicksSinceLastCall 7 (fst (TimerThreadMain_iteration kill_ok
      (snd (GetTicksSinceLastCall 7
        ((ThreadProfileEventSource 100)\<lparr>current_tick := 2147483647\<rparr>)))))) \<noteq> word_of_nat 1 \<and>
   thread_last_tick
     ((snd (GetTicksSinceLastCall 7 ((ThreadProfileEventSource 100)\<lparr>current_tick := 5\<rparr>)))
         \<lparr>current_tick := 5 + word_of_nat 4294967294\<rparr>) 7 \<noteq> 0 \<and>
   fst (GetTicksSinceLastCall 7
      ((snd (GetTicksSinceLastCall 7 ((ThreadProfileEventSource 100)\<lparr>current_tick := 5\<rparr>)))
         \<lparr>current_tick := 5 + word_of_nat 4294967294\<rparr>)) = 2 \<and>
   fst (GetTicksSinceLastCall 7
      ((snd (GetTicksSinceLastCall 7 ((ThreadProfileEventSource 100)\<lparr>current_tick := 5\<rparr>)))
         \<lparr>current_tick := 5 + word_of_nat 4294967294\<rparr>)) \<noteq> word_of_nat 4294967294"
  by (simp add: GetTicksSinceLastCall_def TimerThreadMain_iteration_def
      ThreadProfileEventSource_def Let_def word_sless_alt)

text \<open>
  C3: the first call of \<^verbatim>\<open>GetTicksSinceLastCall\<close> on a thread, whose
  last-observed tick still holds the sentinel zero, returns exactly 1.
\<close>

theorem GetTicksSinceLastCall_first:
  "thread_last_tick s self = 0 \<Longrightarrow> fst (GetTicksSinceLastCall self s) = 1"
  by (simp add: GetTicksSinceLastCall_def)

theorem GetTicksSinceLastCall_first_witness:
  "thread_last_tick (ThreadProfileEventSource 100) 7 = 0 \<and>
   fst (GetTicksSinceLastCall 7 (ThreadProfileEventSource 100)) = 1"
proof -
  have h: "thread_last_tick (ThreadProfileEventSource 100) 7 = 0"
    by (simp add: ThreadProfileEventSource_def)
  show ?thesis using h GetTicksSinceLastCall_first [OF h] by simp
qed

text \<open>
  C9: a call made while the counter reads 0 stores 0, the sentinel, as the
  thread's last-observed tick; the thread's next call, in any state \<open>s2\<close>
  where that cell is untouched, returns 1 whatever the counter has become.
\<close>

theorem GetTicksSinceLastCall_at_zero:
  assumes "current_tick s = 0"
    and "thread_last_tick s2 self = thread_last_tick (snd (GetTicksSinceLastCall self s)) self"
  shows "thread_last_tick (snd (GetTicksSinceLastCall self s)) self = 0 \<and>
         fst (GetTicksSinceLastCall self s2) = 1"
  using assms by (simp add: GetTicksSinceLastCall_def Let_def)

text \<open>Thread 7 calls at counter 0 and again at counter 5: five ticks elapsed, 1 is returned.\<close>

theorem GetTicksSinceLastCall_at_zero_witness:
  "current_tick (ThreadProfileEventSource 100) = 0 \<and>
   thread_last_tick (snd (GetTicksSinceLastCall 7 (ThreadProfileEventSource 100))) 7 = 0 \<and>
   fst (GetTicksSinceLastCall 7
     ((snd (GetTicksSinceLastCall 7 (ThreadProfileEventSource 100)))\<lparr>current_tick := 5\<rparr>)) = 1"
proof -
  have h1: "current_tick (ThreadProfileEventSource 100) = 0"
    by (simp add: ThreadProfileEventSource_def)
  have h2: "thread_last_tick
      ((snd (GetTicksSinceLastCall 7 (ThreadProfileEventSource 100)))\<lparr>current_tick := 5\<rparr>) 7
      = thread_last_tick (snd (GetTicksSinceLastCall 7 (ThreadProfileEventSource 100))) 7"
    by simp
  show ?thesis
    using h1 GetTicksSinceLastCall_at_zero [OF h1 h2] by simp
qed

subsection \<open>The timer runs while callbacks are registered\<close>

lemma TimerThreadMain_iteration_stop:
  "thread_stop (fst (TimerThreadMain_iteration kill s)) = thread_stop s"
  by (simp add: TimerThreadMain_iteration_def Let_def split: prod.splits)

lemma TimerThreadMain_iteration_tick:
  "current_tick (fst (TimerThreadMain_iteration kill s)) = current_tick s + 1"
  by (simp add: TimerThreadMain_iteration_def Let_def split: prod.splits)

lemma TimerThreadMain_ticks:
  "\<not> thread_stop s \<Longrightarrow>
     current_tick (fst (TimerThreadMain n kill s)) = current_tick s + word_of_nat n"
proof (induction n arbitrary: s)
  case 0
  then show ?case by simp
next
  case (Suc n)
  let ?s1 = "fst (TimerThreadMain_iteration kill s)"
  have "\<not> thread_stop ?s1"
    using Suc.prems by (simp add: TimerThreadMain_iteration_stop)
  from Suc.IH [OF this]
  have "current_tick (fst (TimerThreadMain n kill ?s1)) = current_tick s + 1 + word_of_nat n"
    by (simp add: TimerThreadMain_iteration_tick)
  then show ?case
    using Suc.prems by (simp add: split_def Let_def)
qed

lemma TimerThreadMain_stopped:
  "thread_stop s \<Longrightarrow> TimerThreadMain n kill s = (s, [], [])"
  by (cases n) simp_all

lemma callback_step:
  assumes "os_ok k" and "lifecycle_inv c s" and "reports_new_count c [e]"
  shows "apply_callback k e s = Inr (spec_timer_lifecycle c [(k, e)] s) \<and>
         lifecycle_inv (count_after c [e]) (spec_timer_lifecycle c [(k, e)] s)"
proof (cases e)
  case (RegisteredCallback_call n)
  with assms show ?thesis
    by (auto simp: RegisteredCallback_def StartTimerThread_def os_ok_def lifecycle_inv_def
        timer_running_def spec_started_def)
next
  case (UnregisteredCallback_call n)
  with assms show ?thesis
    by (auto simp: UnregisteredCallback_def StopTimerThread_def os_ok_def lifecycle_inv_def
        timer_running_def spec_stopped_def)
qed

lemma spec_timer_lifecycle_Cons:
  "spec_timer_lifecycle c ((k, e) # cs) s =
     spec_timer_lifecycle (count_after c [e]) cs (spec_timer_lifecycle c [(k, e)] s)"
  by (cases e) simp_all

lemma count_after_Cons: "count_after c (e # cs) = count_after (count_after c [e]) cs"
  by (cases e) simp_all

lemma reports_new_count_Cons:
  "reports_new_count c (e # cs) \<longleftrightarrow>
     reports_new_count c [e] \<and> reports_new_count (count_after c [e]) cs"
  by (cases e) auto

lemma callback_calls_refines:
  assumes "list_all os_ok (map fst cs)" and "reports_new_count c (map snd cs)"
    and "lifecycle_inv c s"
  shows "callback_calls cs s = Inr (spec_timer_lifecycle c cs s) \<and>
         lifecycle_inv (count_after c (map snd cs)) (spec_timer_lifecycle c cs s)"
  using assms
proof (induction cs arbitrary: c s)
  case Nil
  then show ?case by simp
next
  case (Cons ke cs)
  obtain k e where ke: "ke = (k, e)" by (cases ke)
  have ok: "os_ok k" and oks: "list_all os_ok (map fst cs)"
    using Cons.prems(1) ke by simp_all
  have one: "reports_new_count c [e]"
    and rest: "reports_new_count (count_after c [e]) (map snd cs)"
    using Cons.prems(2) ke reports_new_count_Cons [of c e "map snd cs"] by simp_all
  from callback_step [OF ok Cons.prems(3) one]
  have step: "apply_callback k e s = Inr (spec_timer_lifecycle c [(k, e)] s)"
    and inv: "lifecycle_inv (count_after c [e]) (spec_timer_lifecycle c [(k, e)] s)"
    by simp_all
  from Cons.IH [OF oks rest inv] show ?case
    using step ke spec_timer_lifecycle_Cons [of c k e cs s]
      count_after_Cons [of c e "map snd cs"]
    by simp
qed

lemma spec_stays_or_stopped:
  assumes "list_all os_ok (map fst cs)" and "reports_new_count c (map snd cs)"
    and "lifecycle_inv c s"
    and "count_after c (map snd cs) < 1"
  shows "spec_timer_lifecycle c cs s = s \<or> thread_stop (spec_timer_lifecycle c cs s)"
  using assms
proof (induction cs arbitrary: c s)
  case Nil
  then show ?case by simp
next
  case (Cons ke cs)
  obtain k e where ke: "ke = (k, e)" by (cases ke)
  let ?s1 = "spec_timer_lifecycle c [(k, e)] s"
  let ?c1 = "count_after c [e]"
  let ?s' = "spec_timer_lifecycle ?c1 cs ?s1"
  have ok: "os_ok k" and oks: "list_all os_ok (map fst cs)"
    using Cons.prems(1) ke by simp_all
  have one: "reports_new_count c [e]"
    and rest: "reports_new_count ?c1 (map snd cs)"
    using Cons.prems(2) ke reports_new_count_Cons [of c e "map snd cs"] by simp_all
  have inv1: "lifecycle_inv ?c1 ?s1"
    using callback_step [OF ok Cons.prems(3) one] by simp
  have fin: "count_after ?c1 (map snd cs) < 1"
    using Cons.prems(4) ke count_after_Cons [of c e "map snd cs"] by simp
  have inv': "lifecycle_inv (count_after ?c1 (map snd cs)) ?s'"
    using callback_calls_refines [OF oks rest inv1] by simp
  have whole: "spec_timer_lifecycle c (ke # cs) s = ?s'"
    using ke spec_timer_lifecycle_Cons [of c k e cs s] by simp
  from Cons.IH [OF oks rest inv1 fin] have "?s' = ?s1 \<or> thread_stop ?s'" .
  then show ?case
  proof
    assume "thread_stop ?s'"
    then show ?thesis using whole by simp
  next
    assume same: "?s' = ?s1"
    have idle: "thread ?s1 = 0"
      using inv' fin same by (simp add: lifecycle_inv_def)
    have "?s1 = s \<or> thread_stop ?s1"
      using idle one ok
      by (cases e) (auto simp: spec_started_def spec_stopped_def os_ok_def split: if_splits)
    then show ?thesis using whole same by auto
  qed
qed

text \<open>
  C4: for every sequence of \<^verbatim>\<open>RegisteredCallback\<close> and
  \<^verbatim>\<open>UnregisteredCallback\<close> calls that each report the new total, started in
  a state that agrees with the count \<open>c\<close> before it (as the constructed state
  does with count 0), and with an operating system that does not fail: no call
  is fatal, and the state after the sequence is the one where the timer was
  started on each call reporting 1 after 0 (stop flag cleared, handle of the
  thread created during that call), stopped on each call reporting 0 after 1
  (stop flag set, handle cleared), and left alone by every other call. So the
  timer is running afterwards, by its handle and by its stop flag, if and only
  if the count is at least 1. When it is, the loop keeps ticking (for a
  frequency that is not zero), and the call that stops it goes through the
  join: it is fatal if the join fails. When it is not, either no call of the
  sequence changed the state or the loop has been told to stop and makes no
  further tick and sends no signal.
\<close>

theorem timer_running_iff_callbacks:
  assumes "list_all os_ok (map fst cs)"
    and "reports_new_count c (map snd cs)"
    and "(thread s \<noteq> 0 \<longleftrightarrow> 1 \<le> c) \<and> (timer_running s \<longleftrightarrow> 1 \<le> c)"
  shows "\<exists>s'. callback_calls cs s = Inr s' \<and> s' = spec_timer_lifecycle c cs s \<and>
           (thread s' \<noteq> 0 \<longleftrightarrow> 1 \<le> count_after c (map snd cs)) \<and>
           (timer_running s' \<longleftrightarrow> 1 \<le> count_after c (map snd cs)) \<and>
           (1 \<le> count_after c (map snd cs) \<and> frequency s' \<noteq> 0 \<longrightarrow>
              current_tick (fst (TimerThreadMain n kill s')) = current_tick s' + word_of_nat n) \<and>
           (1 \<le> count_after c (map snd cs) \<and> pthread_join_rc k' \<noteq> 0 \<longrightarrow>
              UnregisteredCallback k' 0 s' = Inl (FATAL ''Cannot stop timer thread %d'')) \<and>
           (count_after c (map snd cs) < 1 \<longrightarrow>
              s' = s \<or> TimerThreadMain n kill s' = (s', [], []))"
proof -
  let ?s' = "spec_timer_lifecycle c cs s"
  let ?c' = "count_after c (map snd cs)"
  have inv: "lifecycle_inv c s"
    using assms(3) by (simp add: lifecycle_inv_def)
  from callback_calls_refines [OF assms(1,2) inv]
  have run: "callback_calls cs s = Inr ?s'" and inv': "lifecycle_inv ?c' ?s'"
    by simp_all
  have ticks: "current_tick (fst (TimerThreadMain n kill ?s')) = current_tick ?s' + word_of_nat n"
    if "1 \<le> ?c'"
    using that inv' TimerThreadMain_ticks [of ?s' n kill]
    by (simp add: lifecycle_inv_def timer_running_def)
  have join: "UnregisteredCallback k' 0 ?s' = Inl (FATAL ''Cannot stop timer thread %d'')"
    if "1 \<le> ?c'" and "pthread_join_rc k' \<noteq> 0"
    using that inv' by (simp add: lifecycle_inv_def UnregisteredCallback_def StopTimerThread_def)
  have stopped: "?s' = s \<or> TimerThreadMain n kill ?s' = (?s', [], [])" if "?c' < 1"
    using spec_stays_or_stopped [OF assms(1,2) inv that] TimerThreadMain_stopped [of ?s' n kill]
    by auto
  show ?thesis
    using run inv' ticks join stopped by (simp add: lifecycle_inv_def)
qed


text \<open>
  Two registrations and two deregistrations from the constructed state stop the
  timer; a further registration starts thread 43.
\<close>

theorem timer_running_iff_callbacks_witness:
  "list_all os_ok (map fst
     [(os_success, RegisteredCallback_call 1), (os_success, RegisteredCallback_call 2),
      (os_success, UnregisteredCallback_call 1), (os_success, UnregisteredCallback_call 0),
      (os_success\<lparr>pthread_create_thread := 43\<rparr>, RegisteredCallback_call 1)]) \<and>
   reports_new_count 0 (map snd
     [(os_success, RegisteredCallback_call 1), (os_success, RegisteredCallback_call 2),
      (os_success, UnregisteredCallback_call 1), (os_success, UnregisteredCallback_call 0),
      (os_success\<lparr>pthread_create_thread := 43\<rparr>, RegisteredCallback_call 1)]) \<and>
   callback_calls
     [(os_success, RegisteredCallback_call 1), (os_success, RegisteredCallback_call 2),
      (os_success, UnregisteredCallback_call 1), (os_success, UnregisteredCallback_call 0)]
     (ThreadProfileEventSource 100) = Inr ((ThreadProfileEventSource 100)\<lparr>thread_stop := True\<rparr>) \<and>
   TimerThreadMain 3 kill_ok ((ThreadProfileEventSource 100)\<lparr>thread_stop := True\<rparr>) =
     ((ThreadProfileEventSource 100)\<lparr>thread_stop := True\<rparr>, [], []) \<and>
   callback_calls
     [(os_success, RegisteredCallback_call 1), (os_success, RegisteredCallback_call 2),
      (os_success, UnregisteredCallback_call 1), (os_success, UnregisteredCallback_call 0),
      (os_success\<lparr>pthread_create_thread := 43\<rparr>, RegisteredCallback_call 1)]
     (ThreadProfileEventSource 100) = Inr ((ThreadProfileEventSource 100)\<lparr>thread := 43\<rparr>) \<and>
   timer_running ((ThreadProfileEventSource 100)\<lparr>thread := 43\<rparr>) \<and>
   current_tick (fst (TimerThreadMain 3 kill_ok ((ThreadProfileEventSource 100)\<lparr>thread := 43\<rparr>))) = 3 \<and>
   UnregisteredCallback (os_success\<lparr>pthread_join_rc := 1\<rparr>) 0
     ((ThreadProfileEventSource 100)\<lparr>thread := 43\<rparr>) = Inl (FATAL ''Cannot stop timer thread %d'')"
proof -
  let ?init = "ThreadProfileEventSource 100"
  let ?stop = "[(os_success, RegisteredCallback_call 1), (os_success, RegisteredCallback_call 2),
      (os_success, UnregisteredCallback_call 1), (os_success, UnregisteredCallback_call 0)]"
  let ?again = "?stop @ [(os_success\<lparr>pthread_create_thread := 43\<rparr>, RegisteredCallback_call 1)]"
  have ok: "os_ok os_success" "os_ok (os_success\<lparr>pthread_create_thread := 43\<rparr>)"
    by (simp_all add: os_ok_def os_success_def)
  have a1: "list_all os_ok (map fst ?stop)" and a2: "list_all os_ok (map fst ?again)"
    using ok by simp_all
  have b1: "reports_new_count 0 (map snd ?stop)" and b2: "reports_new_count 0 (map snd ?again)"
    by simp_all
  have c: "(thread ?init \<noteq> 0 \<longleftrightarrow> (1::int) \<le> 0) \<and> (timer_running ?init \<longleftrightarrow> (1::int) \<le> 0)"
    by (simp add: ThreadProfileEventSource_def timer_running_def)
  have sp1: "spec_timer_lifecycle 0 ?stop ?init = ?init\<lparr>thread_stop := True\<rparr>"
    by (simp add: spec_started_def spec_stopped_def ThreadProfileEventSource_def)
  have sp2: "spec_timer_lifecycle 0 ?again ?init = ?init\<lparr>thread := 43\<rparr>"
    by (simp add: spec_started_def spec_stopped_def ThreadProfileEventSource_def)
  have j: "pthread_join_rc (os_success\<lparr>pthread_join_rc := 1\<rparr>) \<noteq> 0"
    by simp
  have ne: "?init\<lparr>thread_stop := True\<rparr> \<noteq> ?init"
    by (simp add: ThreadProfileEventSource_def)
  have ct: "current_tick ?init = 0"
    by (simp add: ThreadProfileEventSource_def)
  have fr: "frequency ?init \<noteq> 0"
    by (simp add: ThreadProfileEventSource_def)
  show ?thesis
    using a2 b2
      timer_running_iff_callbacks [OF a1 b1 c, of 3 kill_ok os_success]
      timer_running_iff_callbacks [OF a2 b2 c, of 3 kill_ok "os_success\<lparr>pthread_join_rc := 1\<rparr>"]
      sp1 sp2 j ne ct fr
    by simp
qed

text \<open>
  C7: starting the timer while one is running, that is with a task handle that
  is not zero, is fatal and launches nothing, whatever the operating system
  would answer; so is the call \<^verbatim>\<open>RegisteredCallback(1)\<close> that asks for it.
\<close>

theorem StartTimerThread_twice_fatal:
  "thread s \<noteq> 0 \<Longrightarrow>
     StartTimerThread k s = Inl (FATAL ''Timer already running'') \<and>
     RegisteredCallback k 1 s = Inl (FATAL ''Timer already running'')"
  by (simp add: StartTimerThread_def RegisteredCallback_def)

text \<open>\<^verbatim>\<open>RegisteredCallback(1)\<close> twice: the first starts thread 42, the second is fatal.\<close>

theorem StartTimerThread_twice_fatal_witness:
  "RegisteredCallback os_success 1 (ThreadProfileEventSource 100) =
     Inr ((ThreadProfileEventSource 100)\<lparr>thread := 42\<rparr>) \<and>
   thread ((ThreadProfileEventSource 100)\<lparr>thread := 42\<rparr>) \<noteq> 0 \<and>
   StartTimerThread os_success ((ThreadProfileEventSource 100)\<lparr>thread := 42\<rparr>) =
     Inl (FATAL ''Timer already running'') \<and>
   RegisteredCallback os_success 1 ((ThreadProfileEventSource 100)\<lparr>thread := 42\<rparr>) =
     Inl (FATAL ''Timer already running'')"
proof -
  have h: "thread ((ThreadProfileEventSource 100)\<lparr>thread := 42\<rparr>) \<noteq> 0"
    by simp
  have st: "RegisteredCallback os_success 1 (ThreadProfileEventSource 100) =
     Inr ((ThreadProfileEventSource 100)\<lparr>thread := 42\<rparr>)"
    by (simp add: RegisteredCallback_def StartTimerThread_def ThreadProfileEventSource_def
        os_success_def)
  show ?thesis
    using h st StartTimerThread_twice_fatal [OF h, of os_success] by simp
qed

text \<open>
  C10: with no timer running (task handle zero) \<^verbatim>\<open>StopTimerThread\<close>, and so
  \<^verbatim>\<open>UnregisteredCallback(0)\<close> and \<^verbatim>\<open>Reset\<close>, return without error and leave
  the whole state as it was, whatever the operating system would answer.
\<close>

theorem StopTimerThread_idle:
  "thread s = 0 \<Longrightarrow>
     StopTimerThread k s = Inr s \<and> UnregisteredCallback k 0 s = Inr s \<and> Reset k s = Inr s"
  by (simp add: StopTimerThread_def UnregisteredCallback_def Reset_def)

theorem StopTimerThread_idle_witness:
  "thread (ThreadProfileEventSource 100) = 0 \<and>
   StopTimerThread os_success (ThreadProfileEventSource 100) = Inr (ThreadProfileEventSource 100) \<and>
   UnregisteredCallback os_success 0 (ThreadProfileEventSource 100) =
     Inr (ThreadProfileEventSource 100) \<and>
   Reset os_success (ThreadProfileEventSource 100) = Inr (ThreadProfileEventSource 100)"
proof -
  have h: "thread (ThreadProfileEventSource 100) = 0"
    by (simp add: ThreadProfileEventSource_def)
  show ?thesis
    using h StopTimerThread_idle [OF h, of os_success] by simp
qed

subsection \<open>Reset\<close>

text \<open>
  C5 (amended): with an operating system that does not fail, \<^verbatim>\<open>Reset\<close> stops
  and joins a running timer and clears the task handle; it sets the stop flag
  when it stopped a timer and changes nothing else (the events-enabled flag,
  the registry and the tick counters stay as they were, they are not put back
  to what the constructor gave them). A \<^verbatim>\<open>RegisteredCallback(1)\<close> after it
  starts a fresh timer: the stop flag is cleared and the task handle is the new
  thread's, which is not zero.
\<close>

theorem Reset_stops_timer:
  assumes "os_ok k"
  shows "Reset k s = Inr (if thread s \<noteq> 0 then s\<lparr>thread_stop := True, thread := 0\<rparr> else s) \<and>
         RegisteredCallback k 1 (if thread s \<noteq> 0 then s\<lparr>thread_stop := True, thread := 0\<rparr> else s) =
           Inr (s\<lparr>thread_stop := False, thread := pthread_create_thread k\<rparr>) \<and>
         pthread_create_thread k \<noteq> 0"
  using assms
  by (simp add: Reset_def StopTimerThread_def RegisteredCallback_def StartTimerThread_def os_ok_def)

theorem Reset_stops_timer_witness:
  "os_ok os_success \<and>
   Reset os_success ((ThreadProfileEventSource 100)\<lparr>thread := 42\<rparr>) =
     Inr ((ThreadProfileEventSource 100)\<lparr>thread_stop := True\<rparr>) \<and>
   RegisteredCallback os_success 1 ((ThreadProfileEventSource 100)\<lparr>thread_stop := True\<rparr>) =
     Inr ((ThreadProfileEventSource 100)\<lparr>thread := 42\<rparr>)"
proof -
  have h: "os_ok os_success"
    by (simp add: os_ok_def os_success_def)
  show ?thesis
    using h Reset_stops_timer [OF h, of "(ThreadProfileEventSource 100)\<lparr>thread := 42\<rparr>"]
    by (simp add: ThreadProfileEventSource_def os_success_def)
qed

text \<open>
  C5 as stated fails. From the constructed state the timer is started (thread
  42), thread 7 registers and events are enabled; after \<^verbatim>\<open>Reset\<close> the stop
  flag and the events-enabled flag are set and the registry holds thread 7,
  which is not the state the constructor produces.
\<close>

theorem Reset_counterexample:
  "RegisteredCallback os_success 1 (ThreadProfileEventSource 100) =
     Inr ((ThreadProfileEventSource 100)\<lparr>thread := 42\<rparr>) \<and>
   Reset os_success
       (EnableEvents (RegisterThread 7 0 ((ThreadProfileEventSource 100)\<lparr>thread := 42\<rparr>))) =
     Inr ((ThreadProfileEventSource 100)
            \<lparr>thread_stop := True, events_enabled := True, threads := [7]\<rparr>) \<and>
   (ThreadProfileEventSource 100)\<lparr>thread_stop := True, events_enabled := True, threads := [7]\<rparr>
     \<noteq> ThreadProfileEventSource 100"
  by (simp add: RegisteredCallback_def StartTimerThread_def Reset_def StopTimerThread_def
      EnableEvents_def RegisterThread_def ThreadProfileEventSource_def os_success_def)

subsection \<open>The delivery pass\<close>





subsection \<open>The registry\<close>

lemma RegisterThread_calls_threads:
  "RegisterThread_calls cs s = s\<lparr>threads := threads s @ map fst cs\<rparr>"
  by (induction cs s rule: RegisterThread_calls.induct) (simp_all add: RegisterThread_def)

text \<open>
  C8 (amended): the registry is a list of thread identifiers. A sequence of
  \<^verbatim>\<open>RegisterThread\<close> calls appends the callers' identifiers in order and
  changes nothing else, so an identifier occurs once more for each call its
  thread made: at most once only if it was absent and the thread registered at
  most once.
\<close>

theorem RegisterThread_appends:
  "RegisterThread_calls cs s = s\<lparr>threads := threads s @ map fst cs\<rparr> \<and>
   count_list (threads (RegisterThread_calls cs s)) t =
     count_list (threads s) t + count_list (map fst cs) t"
  by (simp add: RegisterThread_calls_threads)

text \<open>
  C8 as stated fails: thread 7 registers twice on the constructed state and
  occurs twice in the registry.
\<close>

theorem RegisterThread_counterexample:
  "threads (RegisterThread 7 0 (RegisterThread 7 0 (ThreadProfileEventSource 100))) = [7, 7] \<and>
   count_list (threads (RegisterThread 7 0 (RegisterThread 7 0 (ThreadProfileEventSource 100)))) 7 = 2"
  by (simp add: RegisterThread_def ThreadProfileEventSource_def)

end
